theory Spec2Isabelle
  imports Complex_Main "HOL-Library.Char_ord" "HOL-Library.List_Lexorder"
begin

section \<open>NBA Analytics Hub: the data pipeline and the views of app.py\<close>

text \<open>
  A DataFrame is a list of rows in row order; a row is a record with one field per column.
  float64 cells that come from the provider are finite numbers, modelled as reals.
  Results the code computes with a division or a mean can leave the finite numbers
  (pandas does not raise there), so they are cells of type \<open>fl\<close>.

  The arithmetic of load_dataset is float64 arithmetic: an operation returns the float64
  value nearest to its exact result. That rounding is a parameter \<open>rnd\<close> of the deriver,
  applied once per operation of the source; nothing is assumed about it, so no law of real
  arithmetic carries across two operations. Its results are finite: an overflow of the
  float64 range is outside the model.
\<close>

subsection \<open>Data model\<close>

datatype fl = Fin real | NaN | PosInf | NegInf

type_synonym rounding = "real \<Rightarrow> real"

datatype error = ProviderError string | IndexError | KeyError string

text \<open>The columns of the provider's table that the pipeline keeps (the keep-list without SEASON).\<close>

record raw_row =
  TEAM_NAME :: string
  GP :: int
  W :: int
  L :: int
  FG3M :: real
  FG3A :: real
  FG3_PCT :: real
  PTS :: real

record stat_row = raw_row +
  SEASON :: string

record derived_row = stat_row +
  THREES_PER_GAME :: real
  THREES_ATT_PER_GAME :: real
  POINTS_FROM_3 :: real
  PERCENT_POINTS_3 :: fl

record merged_row = derived_row +
  CHAMPION_TEAM :: "string option"

record row = merged_row +
  IS_CHAMPION :: bool

subsection \<open>Constants\<close>

definition SEASONS :: "string list" where
  "SEASONS = [''2014-15'', ''2015-16'', ''2016-17'', ''2017-18'', ''2018-19'',
              ''2019-20'', ''2020-21'', ''2021-22'', ''2022-23'', ''2023-24'']"

definition CHAMPIONS_DATA :: "(string \<times> string) list" where
  "CHAMPIONS_DATA =
    [(''2014-15'', ''Golden State Warriors''),
     (''2015-16'', ''Cleveland Cavaliers''),
     (''2016-17'', ''Golden State Warriors''),
     (''2017-18'', ''Golden State Warriors''),
     (''2018-19'', ''Toronto Raptors''),
     (''2019-20'', ''Los Angeles Lakers''),
     (''2020-21'', ''Milwaukee Bucks''),
     (''2021-22'', ''Golden State Warriors''),
     (''2022-23'', ''Denver Nuggets''),
     (''2023-24'', ''Boston Celtics'')]"

subsection \<open>Remote Stats Fetcher\<close>

text \<open>
  The provider is the outside world: \<open>P season k\<close> is what request number \<open>k\<close> (counting
  every request made so far) answers when it asks for \<open>season\<close> in per-game mode: an
  exception, or the endpoint's first data frame. The endpoint class declares its result
  set, so the list of frames has a first element whenever the request object was built.
  The fetcher returns its result together with the advanced request counter. The model is
  the body of the function, as it runs when the cache holds no entry for the season.
\<close>

type_synonym provider = "string \<Rightarrow> nat \<Rightarrow> error + raw_row list"

definition set_season :: "string \<Rightarrow> raw_row \<Rightarrow> stat_row" where
  "set_season season r = raw_row.extend r (stat_row.fields season)"

definition fetch_team_stats_for_season ::
    "provider \<Rightarrow> string \<Rightarrow> nat \<Rightarrow> (error + stat_row list) \<times> nat" where
  "fetch_team_stats_for_season P season k =
     (case P season k of
        Inl e \<Rightarrow> (Inl e, Suc k)
      | Inr df \<Rightarrow> (Inr (map (set_season season) df), Suc k))"

subsection \<open>Season Aggregator\<close>

text \<open>
  The loop of load_dataset over the season list; \<open>frames\<close> is the list it appends to. An
  exception of the fetcher leaves the loop. The pacing sleep changes no value.
\<close>

fun load_frames ::
    "provider \<Rightarrow> string list \<Rightarrow> stat_row list list \<Rightarrow> nat \<Rightarrow> (error + stat_row list list) \<times> nat" where
  "load_frames P [] frames k = (Inr frames, k)"
| "load_frames P (s # ss) frames k =
     (case fetch_team_stats_for_season P s k of
        (Inl e, k') \<Rightarrow> (Inl e, k')
      | (Inr df_s, k') \<Rightarrow> load_frames P ss (frames @ [df_s]) k')"

text \<open>pd.concat(frames, ignore_index=True) followed by the projection to the keep-list.\<close>

definition aggregate :: "provider \<Rightarrow> nat \<Rightarrow> (error + stat_row list) \<times> nat" where
  "aggregate P k =
     (case load_frames P SEASONS [] k of
        (Inl e, k') \<Rightarrow> (Inl e, k')
      | (Inr frames, k') \<Rightarrow> (Inr (concat frames), k'))"

subsection \<open>Metrics Deriver\<close>

text \<open>Series.max(): the largest cell, None (pandas gives NaN) on an empty column.\<close>

fun col_max :: "real list \<Rightarrow> real option" where
  "col_max [] = None"
| "col_max (x # xs) = Some (fold max xs x)"

definition normalize_pct :: "rounding \<Rightarrow> stat_row list \<Rightarrow> stat_row list" where
  "normalize_pct rnd df =
     (case col_max (map FG3_PCT df) of
        None \<Rightarrow> df
      | Some m \<Rightarrow>
          if m \<le> 1 then map (\<lambda>r. r\<lparr>FG3_PCT := rnd (FG3_PCT r * 100)\<rparr>) df else df)"

text \<open>float64 division: no exception, a zero divisor gives an infinity or NaN.\<close>

definition fl_div :: "rounding \<Rightarrow> real \<Rightarrow> real \<Rightarrow> fl" where
  "fl_div rnd a b =
     (if b \<noteq> 0 then Fin (rnd (a / b))
      else if 0 < a then PosInf else if a < 0 then NegInf else NaN)"

text \<open>Multiplication of a cell by a positive finite constant.\<close>

fun fl_scale :: "rounding \<Rightarrow> fl \<Rightarrow> real \<Rightarrow> fl" where
  "fl_scale rnd (Fin x) c = Fin (rnd (x * c))"
| "fl_scale rnd v c = v"

text \<open>
  Lines 144 to 147: two copies and three float64 operations, the product by 3, the
  quotient by PTS and the product by 100, each rounded on its own.
\<close>

definition derive_row :: "rounding \<Rightarrow> stat_row \<Rightarrow> derived_row" where
  "derive_row rnd r =
     (let points_from_3 = rnd (FG3M r * 3)
      in stat_row.extend r
           (derived_row.fields (FG3M r) (FG3A r) points_from_3
              (fl_scale rnd (fl_div rnd points_from_3 (PTS r)) 100)))"

text \<open>
  DataFrame.merge(champs_df, on="SEASON", how="left"): every left row, in order, once per
  matching right row, and once with a null champion when no right row matches.
\<close>

definition with_champion :: "derived_row \<Rightarrow> string option \<Rightarrow> merged_row" where
  "with_champion r c = derived_row.extend r (merged_row.fields c)"

definition merge_left :: "derived_row list \<Rightarrow> (string \<times> string) list \<Rightarrow> merged_row list" where
  "merge_left df champs_df =
     concat (map (\<lambda>r.
       (case filter (\<lambda>kv. fst kv = SEASON r) champs_df of
          [] \<Rightarrow> [with_champion r None]
        | ms \<Rightarrow> map (\<lambda>kv. with_champion r (Some (snd kv))) ms)) df)"

text \<open>TEAM_NAME == CHAMPION_TEAM, cell by cell: a null champion compares unequal.\<close>

definition flag_champion :: "merged_row \<Rightarrow> row" where
  "flag_champion r =
     merged_row.extend r (row.fields (CHAMPION_TEAM r = Some (TEAM_NAME r)))"

definition derive_metrics :: "rounding \<Rightarrow> stat_row list \<Rightarrow> row list" where
  "derive_metrics rnd df =
     map flag_champion
       (merge_left (map (derive_row rnd) (normalize_pct rnd df)) CHAMPIONS_DATA)"

definition load_dataset :: "rounding \<Rightarrow> provider \<Rightarrow> nat \<Rightarrow> (error + row list) \<times> nat" where
  "load_dataset rnd P k =
     (case aggregate P k of
        (Inl e, k') \<Rightarrow> (Inl e, k')
      | (Inr df, k') \<Rightarrow> (Inr (derive_metrics rnd df), k'))"

text \<open>
  One dataset row from one normalized row: the row-wise content of the derived columns,
  the join and the flag, for a champion table without repeated seasons.
\<close>

definition finish_row :: "rounding \<Rightarrow> stat_row \<Rightarrow> row" where
  "finish_row rnd r =
     flag_champion (with_champion (derive_row rnd r) (map_of CHAMPIONS_DATA (SEASON r)))"

subsection \<open>Filters of main\<close>

definition filter_season :: "string \<Rightarrow> row list \<Rightarrow> row list" where
  "filter_season selected_season df = filter (\<lambda>r. SEASON r = selected_season) df"

definition filter_teams :: "string list \<Rightarrow> row list \<Rightarrow> row list" where
  "filter_teams selected_teams df_season =
     filter (\<lambda>r. TEAM_NAME r \<in> set selected_teams) df_season"

text \<open>The slider gives an integer from 0 to 100; the comparison is \<open>>=\<close>.\<close>

definition filter_min_pct :: "int \<Rightarrow> row list \<Rightarrow> row list" where
  "filter_min_pct min_fg3_pct df_filtered =
     filter (\<lambda>r. FG3_PCT r \<ge> real_of_int min_fg3_pct) df_filtered"

definition filter_dataset :: "row list \<Rightarrow> string \<Rightarrow> string list \<Rightarrow> int \<Rightarrow> row list" where
  "filter_dataset df selected_season selected_teams min_fg3_pct =
     filter_min_pct min_fg3_pct
       (filter_teams selected_teams (filter_season selected_season df))"

subsection \<open>Metric cards\<close>

text \<open>
  What a card shows: a literal string, or a float printed by a format specification,
  \<open>Fmt1 x s\<close> for \<^verbatim>\<open>f"{x:.1f}"\<close> followed by \<open>s\<close> and \<open>FmtSigned1 x s\<close> for
  \<^verbatim>\<open>f"{x:+.1f}"\<close> followed by \<open>s\<close>. Python prints NaN as \<^verbatim>\<open>nan\<close> under both.
\<close>

datatype card_text = Lit string | Fmt1 fl string | FmtSigned1 fl string

record metric =
  label :: string
  shown :: card_text
  delta :: "card_text option"

text \<open>Series.mean(): NaN on an empty column, no exception.\<close>

definition mean :: "real list \<Rightarrow> fl" where
  "mean xs = (if xs = [] then NaN else Fin (sum_list xs / real (length xs)))"

text \<open>A finite float minus a float cell.\<close>

fun fl_rsub :: "real \<Rightarrow> fl \<Rightarrow> fl" where
  "fl_rsub a (Fin b) = Fin (a - b)"
| "fl_rsub a NaN = NaN"
| "fl_rsub a PosInf = NegInf"
| "fl_rsub a NegInf = PosInf"

text \<open>\<^verbatim>\<open>.iloc[0]\<close> raises IndexError on a table without rows.\<close>

fun iloc0 :: "'a list \<Rightarrow> error + 'a" where
  "iloc0 [] = Inl IndexError"
| "iloc0 (r # rs) = Inr r"

definition label_avg_pct :: string where
  "label_avg_pct = ''3PT% m'' @ [CHR 0xC3, CHR 0xA9] @ ''dio''"

definition word_campeao :: string where
  "word_campeao = ''Campe'' @ [CHR 0xC3, CHR 0xA3] @ ''o''"

definition label_champ_pct :: string where
  "label_champ_pct = word_campeao @ '' '' @ [CHR 0xE2, CHR 0x80, CHR 0x94] @ '' 3PT%''"

definition champ_pct_card :: "row list \<Rightarrow> fl \<Rightarrow> error + metric" where
  "champ_pct_card champ_row avg_pct =
     (if champ_row \<noteq> [] then
        (case iloc0 champ_row of
           Inl e \<Rightarrow> Inl e
         | Inr r \<Rightarrow>
             (let champ_pct = FG3_PCT r
              in Inr \<lparr>label = label_champ_pct, shown = Fmt1 (Fin champ_pct) ''%'',
                      delta = Some (FmtSigned1 (fl_rsub champ_pct avg_pct) ''%'')\<rparr>))
      else Inr \<lparr>label = label_champ_pct, shown = Lit ''N/A'', delta = None\<rparr>)"

definition champ_points_card :: "row list \<Rightarrow> error + metric" where
  "champ_points_card champ_row =
     (if champ_row \<noteq> [] then
        (case iloc0 champ_row of
           Inl e \<Rightarrow> Inl e
         | Inr r \<Rightarrow>
             (let p3 = PERCENT_POINTS_3 r
              in Inr \<lparr>label = ''% pontos do 3PT'', shown = Fmt1 p3 ''%'',
                      delta = Some (Lit word_campeao)\<rparr>))
      else Inr \<lparr>label = ''% pontos do 3PT'', shown = Lit ''N/A'', delta = None\<rparr>)"

text \<open>The four cards in column order, or the exception that stops the rendering.\<close>

definition render_metrics :: "row list \<Rightarrow> error + metric list" where
  "render_metrics df_filtered =
     (let avg_att = mean (map THREES_ATT_PER_GAME df_filtered);
          avg_pct = mean (map FG3_PCT df_filtered);
          champ_row = take 1 (filter IS_CHAMPION df_filtered);
          c1 = \<lparr>label = ''Tentativas 3PT/Jogo'', shown = Fmt1 avg_att [],
                delta = Some (Lit ''Liga'')\<rparr>;
          c2 = \<lparr>label = label_avg_pct, shown = Fmt1 avg_pct ''%'',
                delta = Some (Lit ''Liga'')\<rparr>
      in case champ_pct_card champ_row avg_pct of
           Inl e \<Rightarrow> Inl e
         | Inr c3 \<Rightarrow>
             (case champ_points_card champ_row of
                Inl e \<Rightarrow> Inl e
              | Inr c4 \<Rightarrow> Inr [c1, c2, c3, c4]))"

subsection \<open>Charts\<close>

text \<open>
  A chart is the data handed to the plotting call: one record per row of the frame, with
  the columns the call names. nlargest orders by the column, largest first, and keeps the
  first rows among equals; sort_values orders ascending, equals kept in order.
\<close>

definition nlargest :: "nat \<Rightarrow> ('a \<Rightarrow> real) \<Rightarrow> 'a list \<Rightarrow> 'a list" where
  "nlargest n col df = take n (sort_key (\<lambda>r. - col r) df)"

definition sort_values :: "('a \<Rightarrow> real) \<Rightarrow> 'a list \<Rightarrow> 'a list" where
  "sort_values col df = sort_key col df"

record bar =
  bar_x :: real
  bar_y :: string
  bar_text :: real
  bar_color :: bool

definition plot_top_bar :: "row list \<Rightarrow> bar list" where
  "plot_top_bar df_filtered =
     (let top = sort_values THREES_PER_GAME (nlargest 10 THREES_PER_GAME df_filtered)
      in map (\<lambda>r. \<lparr>bar_x = THREES_PER_GAME r, bar_y = TEAM_NAME r,
                    bar_text = THREES_PER_GAME r, bar_color = IS_CHAMPION r\<rparr>) top)"

record point =
  pt_x :: real
  pt_y :: real
  pt_size :: int
  pt_color :: bool
  pt_hover_name :: string

definition plot_scatter :: "row list \<Rightarrow> point list" where
  "plot_scatter df_filtered =
     map (\<lambda>r. \<lparr>pt_x = THREES_ATT_PER_GAME r, pt_y = FG3_PCT r, pt_size = W r,
                pt_color = IS_CHAMPION r, pt_hover_name = TEAM_NAME r\<rparr>) df_filtered"

record line_point =
  lp_season :: string
  lp_value :: fl
  lp_serie :: string

definition serie_liga :: string where
  "serie_liga = ''Liga (m'' @ [CHR 0xC3, CHR 0xA9] @ ''dia)''"

text \<open>groupby("SEASON", as_index=False)[column].mean(): one row per season, seasons sorted.\<close>

definition groupby_season_mean :: "(row \<Rightarrow> real) \<Rightarrow> row list \<Rightarrow> (string \<times> fl) list" where
  "groupby_season_mean col df_all =
     map (\<lambda>s. (s, mean (map col (filter (\<lambda>r. SEASON r = s) df_all))))
         (sort (remdups (map SEASON df_all)))"

definition plot_evolution :: "row list \<Rightarrow> line_point list" where
  "plot_evolution df_all =
     (let league = map (\<lambda>(s, m). \<lparr>lp_season = s, lp_value = m, lp_serie = serie_liga\<rparr>)
                       (groupby_season_mean THREES_ATT_PER_GAME df_all);
          champs = map (\<lambda>r. \<lparr>lp_season = SEASON r, lp_value = Fin (THREES_ATT_PER_GAME r),
                              lp_serie = word_campeao\<rparr>)
                       (filter IS_CHAMPION df_all)
      in league @ champs)"

text \<open>The four views of one render of main, from the dataset and the sidebar choices.\<close>

record views =
  view_metrics :: "error + metric list"
  view_top_bar :: "bar list"
  view_scatter :: "point list"
  view_evolution :: "line_point list"

definition main_views :: "row list \<Rightarrow> string \<Rightarrow> string list \<Rightarrow> int \<Rightarrow> views" where
  "main_views df selected_season selected_teams min_fg3_pct =
     (let df_filtered = filter_dataset df selected_season selected_teams min_fg3_pct
      in \<lparr>view_metrics = render_metrics df_filtered,
          view_top_bar = plot_top_bar df_filtered,
          view_scatter = plot_scatter df_filtered,
          view_evolution = plot_evolution df\<rparr>)"

subsection \<open>Table and CSV export\<close>

datatype cell = CStr string | CInt int | CNum real | CFlt fl | CBool bool | CNull

text \<open>The columns of the dataset, in column order, with the cells of one row.\<close>

definition row_cells :: "row \<Rightarrow> (string \<times> cell) list" where
  "row_cells r =
     [(''SEASON'', CStr (SEASON r)),
      (''TEAM_NAME'', CStr (TEAM_NAME r)),
      (''GP'', CInt (GP r)),
      (''W'', CInt (W r)),
      (''L'', CInt (L r)),
      (''FG3M'', CNum (FG3M r)),
      (''FG3A'', CNum (FG3A r)),
      (''FG3_PCT'', CNum (FG3_PCT r)),
      (''PTS'', CNum (PTS r)),
      (''THREES_PER_GAME'', CNum (THREES_PER_GAME r)),
      (''THREES_ATT_PER_GAME'', CNum (THREES_ATT_PER_GAME r)),
      (''POINTS_FROM_3'', CNum (POINTS_FROM_3 r)),
      (''PERCENT_POINTS_3'', CFlt (PERCENT_POINTS_3 r)),
      (''CHAMPION_TEAM'', (case CHAMPION_TEAM r of None \<Rightarrow> CNull | Some c \<Rightarrow> CStr c)),
      (''IS_CHAMPION'', CBool (IS_CHAMPION r))]"

definition dataset_columns :: "string list" where
  "dataset_columns =
     [''SEASON'', ''TEAM_NAME'', ''GP'', ''W'', ''L'', ''FG3M'', ''FG3A'', ''FG3_PCT'', ''PTS'',
      ''THREES_PER_GAME'', ''THREES_ATT_PER_GAME'', ''POINTS_FROM_3'', ''PERCENT_POINTS_3'',
      ''CHAMPION_TEAM'', ''IS_CHAMPION'']"

record table =
  columns :: "string list"
  body :: "cell list list"

text \<open>
  \<^verbatim>\<open>df[cols]\<close>: KeyError for a name that is not a column, else the named columns in the
  order asked.
\<close>

definition select_columns :: "string list \<Rightarrow> row list \<Rightarrow> error + table" where
  "select_columns cols df =
     (case find (\<lambda>c. c \<notin> set dataset_columns) cols of
        Some c \<Rightarrow> Inl (KeyError c)
      | None \<Rightarrow>
          Inr \<lparr>columns = cols,
               body = map (\<lambda>r. map (\<lambda>c. case map_of (row_cells r) c of
                                           Some v \<Rightarrow> v | None \<Rightarrow> CNull) cols) df\<rparr>)"

definition rename_columns :: "(string \<times> string) list \<Rightarrow> table \<Rightarrow> table" where
  "rename_columns mapping t =
     t\<lparr>columns := map (\<lambda>c. case map_of mapping c of Some n \<Rightarrow> n | None \<Rightarrow> c) (columns t)\<rparr>"

definition display_cols :: "string list" where
  "display_cols =
     [''TEAM_NAME'', ''W'', ''L'', ''THREES_PER_GAME'', ''THREES_ATT_PER_GAME'',
      ''FG3_PCT'', ''PERCENT_POINTS_3'', ''IS_CHAMPION'']"

definition word_vitorias :: string where
  "word_vitorias = ''Vit'' @ [CHR 0xC3, CHR 0xB3] @ ''rias''"

definition display_names :: "(string \<times> string) list" where
  "display_names =
     [(''TEAM_NAME'', ''Time''),
      (''W'', word_vitorias),
      (''L'', ''Derrotas''),
      (''THREES_PER_GAME'', ''3PT/Jogo''),
      (''THREES_ATT_PER_GAME'', ''Tentativas 3PT/Jogo''),
      (''FG3_PCT'', ''3PT %''),
      (''PERCENT_POINTS_3'', ''% Pontos do 3PT''),
      (''IS_CHAMPION'', word_campeao)]"

text \<open>to_csv(index=False): the header record, then one record per row of the table.\<close>

definition to_csv :: "table \<Rightarrow> cell list list" where
  "to_csv t = map CStr (columns t) # body t"

text \<open>The download offered on the table tab: file name and CSV records.\<close>

definition csv_download ::
    "row list \<Rightarrow> string \<Rightarrow> string list \<Rightarrow> int \<Rightarrow> error + string \<times> cell list list" where
  "csv_download df selected_season selected_teams min_fg3_pct =
     (let df_filtered = filter_dataset df selected_season selected_teams min_fg3_pct
      in case select_columns display_cols df_filtered of
           Inl e \<Rightarrow> Inl e
         | Inr t \<Rightarrow>
             (let df_display = rename_columns display_names t
              in Inr (''nba_stats_'' @ selected_season @ ''.csv'', to_csv df_display)))"

subsection \<open>Card states named by the specification\<close>

text \<open>
  The specification asks for an empty or "N/A" state on an empty table: a card is in that
  state when it shows the literal N/A or nothing.
\<close>

definition na_state :: "metric \<Rightarrow> bool" where
  "na_state c = (shown c = Lit ''N/A'' \<or> shown c = Lit [])"

subsection \<open>Example data\<close>

definition ex_raw :: "string \<Rightarrow> real \<Rightarrow> real \<Rightarrow> real \<Rightarrow> real \<Rightarrow> raw_row" where
  "ex_raw team fg3m fg3a pct pts =
     \<lparr>TEAM_NAME = team, GP = 82, W = 50, L = 32,
      FG3M = fg3m, FG3A = fg3a, FG3_PCT = pct, PTS = pts\<rparr>"

text \<open>
  The cells of the examples are dyadic numbers of few digits, and so is every exact result
  computed from them below: float64 holds each of them, and rounding returns it unchanged.
\<close>

definition ex_round :: rounding where
  "ex_round x = x"

definition ex_nuggets :: raw_row where
  "ex_nuggets = ex_raw ''Denver Nuggets'' 12 32 (375 / 1000) 96"

definition ex_celtics :: raw_row where
  "ex_celtics = ex_raw ''Boston Celtics'' 16 40 (5 / 10) 96"

definition ex_answer :: "string \<Rightarrow> raw_row list" where
  "ex_answer season = (if season = ''2022-23'' then [ex_nuggets, ex_celtics] else [ex_celtics])"

definition ex_provider :: provider where
  "ex_provider season k = Inr (ex_answer season)"

text \<open>A provider whose first request times out and whose later requests answer.\<close>

definition ex_flaky :: provider where
  "ex_flaky season k = (if k = 0 then Inl (ProviderError ''timeout'') else Inr [ex_nuggets])"

definition ex_table :: "stat_row list" where
  "ex_table = map (set_season ''2022-23'') [ex_nuggets, ex_celtics]"

definition ex_table_unlisted :: "stat_row list" where
  "ex_table_unlisted = ex_table @ [set_season ''2024-25'' ex_celtics]"

definition ex_nuggets_again :: raw_row where
  "ex_nuggets_again = ex_raw ''Denver Nuggets'' 15 36 (625 / 1000) 90"

text \<open>A 2022-23 table in which the provider repeats the champion.\<close>

definition ex_repeated :: "row list" where
  "ex_repeated =
     derive_metrics ex_round
       (map (set_season ''2022-23'') [ex_celtics, ex_nuggets, ex_nuggets_again])"

definition ex_dataset :: "row list" where
  "ex_dataset = derive_metrics ex_round ex_table"

definition ex_dataset_longer :: "row list" where
  "ex_dataset_longer = derive_metrics ex_round (ex_table @ [set_season ''2023-24'' ex_celtics])"

text \<open>The four cards rendered from a table without rows.\<close>

definition ex_empty_cards :: "metric list" where
  "ex_empty_cards =
     [\<lparr>label = ''Tentativas 3PT/Jogo'', shown = Fmt1 NaN [], delta = Some (Lit ''Liga'')\<rparr>,
      \<lparr>label = label_avg_pct, shown = Fmt1 NaN ''%'', delta = Some (Lit ''Liga'')\<rparr>,
      \<lparr>label = label_champ_pct, shown = Lit ''N/A'', delta = None\<rparr>,
      \<lparr>label = ''% pontos do 3PT'', shown = Lit ''N/A'', delta = None\<rparr>]"

section \<open>Properties\<close>

lemmas row_defs =
  raw_row.defs stat_row.defs derived_row.defs merged_row.defs row.defs

lemma set_season_simps:
  "SEASON (set_season s r) = s"
  "TEAM_NAME (set_season s r) = TEAM_NAME r"
  "FG3_PCT (set_season s r) = FG3_PCT r"
  "raw_row.truncate (set_season s r) = r"
  by (simp_all add: set_season_def row_defs)

subsection \<open>Remote Stats Fetcher\<close>

text \<open>
  C9: for every season and every request, the fetcher ends in an error exactly when the
  provider's answer to that one request is an error, and the error is the provider's own;
  the request counter advances by one, so the request is not repeated, and a later
  request that would have answered changes nothing.
\<close>

theorem fetch_error_iff_provider_error:
  "(fst (fetch_team_stats_for_season P season k) = Inl e \<longleftrightarrow> P season k = Inl e)
   \<and> snd (fetch_team_stats_for_season P season k) = Suc k"
  by (auto simp: fetch_team_stats_for_season_def split: sum.splits)

theorem fetch_error_witness:
  "fst (fetch_team_stats_for_season ex_flaky ''2022-23'' 0) = Inl (ProviderError ''timeout'')
   \<and> snd (fetch_team_stats_for_season ex_flaky ''2022-23'' 0) = 1
   \<and> ex_flaky ''2022-23'' 1 = Inr [ex_nuggets]"
  using fetch_error_iff_provider_error[of ex_flaky "''2022-23''" 0 "ProviderError ''timeout''"]
  by (simp add: ex_flaky_def)

subsection \<open>Season Aggregator\<close>

lemma load_frames_ok:
  "length ts = length ss \<Longrightarrow>
   (\<forall>i < length ss. P (ss ! i) (k + i) = Inr (ts ! i)) \<Longrightarrow>
   load_frames P ss frames k =
     (Inr (frames @ map (\<lambda>(s, t). map (set_season s) t) (zip ss ts)), k + length ss)"
proof (induction ss arbitrary: ts frames k)
  case Nil
  then show ?case by simp
next
  case (Cons s ss)
  then obtain t ts' where ts: "ts = t # ts'" by (cases ts) auto
  from Cons.prems ts have len: "length ts' = length ss" by simp
  from Cons.prems(2) have h0: "P s k = Inr t" using ts by force
  have hs: "\<forall>i < length ss. P (ss ! i) (Suc k + i) = Inr (ts' ! i)"
  proof (intro allI impI)
    fix i assume "i < length ss"
    then have "P ((s # ss) ! Suc i) (k + Suc i) = Inr (ts ! Suc i)"
      using Cons.prems(2) by (metis Suc_less_eq length_Cons)
    then show "P (ss ! i) (Suc k + i) = Inr (ts' ! i)" using ts by simp
  qed
  show ?case
    using Cons.IH[OF len hs, of "frames @ [map (set_season s) t]"] h0 ts
    by (simp add: fetch_team_stats_for_season_def)
qed

lemma tagged_concat:
  assumes "length ss = length ts"
  shows "length (concat (map (\<lambda>(s, t). map (set_season s) t) (zip ss ts)))
           = sum_list (map length ts)"
    and "map SEASON (concat (map (\<lambda>(s, t). map (set_season s) t) (zip ss ts)))
           = concat (map (\<lambda>(s, t). replicate (length t) s) (zip ss ts))"
    and "map raw_row.truncate (concat (map (\<lambda>(s, t). map (set_season s) t) (zip ss ts)))
           = concat ts"
  using assms
  by (induction ss ts rule: list_induct2)
     (simp_all add: set_season_simps comp_def map_replicate_const)

text \<open>
  C4: when the ten requests of a run, one per season of SEASONS in list order, are answered
  with the tables \<open>ts\<close>, the run returns a table whose row count is the sum of the row
  counts of \<open>ts\<close>, whose SEASON column holds each season once per row fetched for it, in
  season-list order, and whose provider columns are the rows of \<open>ts\<close> in their order.
\<close>

theorem aggregate_concat:
  assumes "length ts = length SEASONS"
    and "\<forall>i < length SEASONS. P (SEASONS ! i) (k + i) = Inr (ts ! i)"
  shows "\<exists>df. aggregate P k = (Inr df, k + length SEASONS)
     \<and> length df = sum_list (map length ts)
     \<and> map SEASON df = concat (map (\<lambda>(s, t). replicate (length t) s) (zip SEASONS ts))
     \<and> map raw_row.truncate df = concat ts"
proof -
  let ?df = "concat (map (\<lambda>(s, t). map (set_season s) t) (zip SEASONS ts))"
  have "load_frames P SEASONS [] k =
          (Inr (map (\<lambda>(s, t). map (set_season s) t) (zip SEASONS ts)), k + length SEASONS)"
    using load_frames_ok[OF assms, of "[]"] by simp
  then have "aggregate P k = (Inr ?df, k + length SEASONS)"
    by (simp add: aggregate_def)
  moreover note tagged_concat[OF assms(1)[symmetric]]
  ultimately show ?thesis by blast
qed

theorem aggregate_concat_witness:
  "\<exists>df. aggregate ex_provider 0 = (Inr df, 10)
     \<and> length df = 11
     \<and> map SEASON df =
         [''2014-15'', ''2015-16'', ''2016-17'', ''2017-18'', ''2018-19'', ''2019-20'',
          ''2020-21'', ''2021-22'', ''2022-23'', ''2022-23'', ''2023-24'']
     \<and> map raw_row.truncate df =
         [ex_celtics, ex_celtics, ex_celtics, ex_celtics, ex_celtics, ex_celtics,
          ex_celtics, ex_celtics, ex_nuggets, ex_celtics, ex_celtics]"
proof -
  have len: "length (map ex_answer SEASONS) = length SEASONS" by simp
  have ans: "\<forall>i < length SEASONS.
      ex_provider (SEASONS ! i) (0 + i) = Inr (map ex_answer SEASONS ! i)"
    by (simp add: ex_provider_def)
  show ?thesis
    using aggregate_concat[OF len ans]
    by (simp add: SEASONS_def ex_answer_def eval_nat_numeral)
qed


subsection \<open>Metrics Deriver\<close>

lemma col_max_Max: "xs \<noteq> [] \<Longrightarrow> col_max xs = Some (Max (set xs))"
proof (cases xs)
  case Nil
  assume "xs \<noteq> []"
  with Nil show ?thesis by simp
next
  case (Cons y ys)
  have "col_max (y # ys) = Some (Max (set (y # ys)))"
    by (simp only: col_max.simps Max.set_eq_fold)
  with Cons show ?thesis by simp
qed

lemma col_max_ge: "x \<in> set xs \<Longrightarrow> \<exists>m. col_max xs = Some m \<and> x \<le> m"
proof -
  assume x: "x \<in> set xs"
  then have "xs \<noteq> []" by auto
  then have "col_max xs = Some (Max (set xs))" by (rule col_max_Max)
  moreover have "x \<le> Max (set xs)" using x by simp
  ultimately show ?thesis by blast
qed

text \<open>
  C2: the normalization step (the whole FG3_PCT column times 100 when the maximum of the
  table is at most 1, nothing otherwise) is idempotent on every table whose normalized
  column holds a value greater than 1: a second application leaves the table, and so the
  column, unchanged.
\<close>

theorem normalize_pct_idempotent:
  assumes "\<exists>r \<in> set (normalize_pct rnd df). 1 < FG3_PCT r"
  shows "normalize_pct rnd (normalize_pct rnd df) = normalize_pct rnd df"
proof -
  from assms obtain r where r: "r \<in> set (normalize_pct rnd df)" and big: "1 < FG3_PCT r"
    by blast
  from r have "FG3_PCT r \<in> set (map FG3_PCT (normalize_pct rnd df))" by simp
  then obtain m where m: "col_max (map FG3_PCT (normalize_pct rnd df)) = Some m"
    and le: "FG3_PCT r \<le> m"
    using col_max_ge by blast
  from big le have "\<not> m \<le> 1" by simp
  with m show ?thesis
    unfolding normalize_pct_def[of rnd "normalize_pct rnd df"] by simp
qed

lemma normalize_pct_keys:
  "map (\<lambda>r. (SEASON r, TEAM_NAME r)) (normalize_pct rnd df) = map (\<lambda>r. (SEASON r, TEAM_NAME r)) df"
  by (simp add: normalize_pct_def split: option.splits)

lemma filter_key_distinct:
  "distinct (map fst kvs) \<Longrightarrow>
   filter (\<lambda>kv. fst kv = k) kvs = (case map_of kvs k of None \<Rightarrow> [] | Some v \<Rightarrow> [(k, v)])"
proof (induction kvs)
  case Nil
  then show ?case by simp
next
  case (Cons kv kvs)
  obtain k' v' where kv: "kv = (k', v')" by (cases kv)
  show ?case
  proof (cases "k' = k")
    case True
    with Cons.prems kv have "k \<notin> fst ` set kvs" by simp
    then have "filter (\<lambda>kv. fst kv = k) kvs = []" by (auto simp: filter_empty_conv)
    with True kv show ?thesis by simp
  next
    case False
    with Cons kv show ?thesis by simp
  qed
qed

lemma merge_left_distinct:
  assumes "distinct (map fst champs_df)"
  shows "merge_left df champs_df = map (\<lambda>r. with_champion r (map_of champs_df (SEASON r))) df"
proof -
  have "\<And>r. (case filter (\<lambda>kv. fst kv = SEASON r) champs_df of
          [] \<Rightarrow> [with_champion r None]
        | ms \<Rightarrow> map (\<lambda>kv. with_champion r (Some (snd kv))) ms)
       = [with_champion r (map_of champs_df (SEASON r))]"
    by (simp add: filter_key_distinct[OF assms] split: option.splits)
  then show ?thesis
    by (simp add: merge_left_def)
qed

lemma CHAMPIONS_DATA_distinct: "distinct (map fst CHAMPIONS_DATA)"
  by (simp add: CHAMPIONS_DATA_def)

lemma load_dataset_derive:
  "load_dataset rnd P k = (Inr ds, k') \<Longrightarrow> \<exists>df. aggregate P k = (Inr df, k') \<and> ds = derive_metrics rnd df"
  by (auto simp: load_dataset_def split: prod.splits sum.splits)

lemma derive_metrics_map: "derive_metrics rnd df = map (finish_row rnd) (normalize_pct rnd df)"
  by (simp add: derive_metrics_def merge_left_distinct[OF CHAMPIONS_DATA_distinct]
      finish_row_def derive_row_def Let_def row_defs comp_def)

lemma finish_row_simps:
  "SEASON (finish_row rnd r) = SEASON r"
  "TEAM_NAME (finish_row rnd r) = TEAM_NAME r"
  "FG3M (finish_row rnd r) = FG3M r"
  "PTS (finish_row rnd r) = PTS r"
  "FG3_PCT (finish_row rnd r) = FG3_PCT r"
  "POINTS_FROM_3 (finish_row rnd r) = rnd (FG3M r * 3)"
  "PERCENT_POINTS_3 (finish_row rnd r) =
     fl_scale rnd (fl_div rnd (rnd (FG3M r * 3)) (PTS r)) 100"
  "CHAMPION_TEAM (finish_row rnd r) = map_of CHAMPIONS_DATA (SEASON r)"
  "IS_CHAMPION (finish_row rnd r) = (map_of CHAMPIONS_DATA (SEASON r) = Some (TEAM_NAME r))"
  by (simp_all add: finish_row_def flag_champion_def with_champion_def derive_row_def
      Let_def row_defs)

text \<open>
  C3: the dataset of load_dataset is derive_metrics of the aggregated table. In every row
  of it with total points above 0, points-from-three is the float64 product of the 3PT
  makes and 3, and percent-of-points-from-three is the finite float64 value of
  (makes times 3) divided by the total points, times 100, evaluated from left to right
  with each of the three operations rounded once. The two sides are the same float64
  values, with no tolerance, whatever the rounding is.
\<close>

theorem percent_points_exact:
  assumes "r \<in> set (derive_metrics rnd df)" and "0 < PTS r"
  shows "POINTS_FROM_3 r = rnd (FG3M r * 3)
       \<and> PERCENT_POINTS_3 r = Fin (rnd (rnd (rnd (FG3M r * 3) / PTS r) * 100))"
proof -
  from assms(1) obtain r0 where "r = finish_row rnd r0"
    by (auto simp: derive_metrics_map)
  with assms(2) show ?thesis
    by (simp add: finish_row_simps fl_div_def)
qed

text \<open>
  C1: for an aggregated table with at most one row per (season, team) pair, the dataset
  has at most one row per season whose is-champion flag is true; the flag is true only in
  a row whose team name is the CHAMPIONS_DATA entry of its season; and it is false in
  every row of a season without an entry. The flag is a boolean in every row: the null
  champion name of the join compares unequal.
\<close>

theorem champion_flag:
  assumes "distinct (map (\<lambda>r. (SEASON r, TEAM_NAME r)) df)"
  shows "length (filter (\<lambda>r. SEASON r = s \<and> IS_CHAMPION r) (derive_metrics rnd df)) \<le> 1
       \<and> (\<forall>r \<in> set (derive_metrics rnd df).
             IS_CHAMPION r \<longrightarrow> map_of CHAMPIONS_DATA (SEASON r) = Some (TEAM_NAME r))
       \<and> (\<forall>r \<in> set (derive_metrics rnd df).
             map_of CHAMPIONS_DATA (SEASON r) = None \<longrightarrow> \<not> IS_CHAMPION r)"
proof -
  let ?key = "\<lambda>r. (SEASON r, TEAM_NAME r)"
  let ?ds = "derive_metrics rnd df"
  let ?cs = "filter (\<lambda>r. SEASON r = s \<and> IS_CHAMPION r) ?ds"
  have keys: "map ?key ?ds = map ?key df"
    using normalize_pct_keys[of rnd df]
    by (simp add: derive_metrics_map comp_def finish_row_simps)
  have only: "\<forall>r \<in> set ?ds. IS_CHAMPION r \<longrightarrow> map_of CHAMPIONS_DATA (SEASON r) = Some (TEAM_NAME r)"
    by (auto simp: derive_metrics_map finish_row_simps)
  have none: "\<forall>r \<in> set ?ds. map_of CHAMPIONS_DATA (SEASON r) = None \<longrightarrow> \<not> IS_CHAMPION r"
    using only by auto
  have d: "distinct (map ?key ?cs)"
    using assms keys by (simp add: distinct_map_filter)
  have sub: "set (map ?key ?cs) \<subseteq> (case map_of CHAMPIONS_DATA s of None \<Rightarrow> {} | Some c \<Rightarrow> {(s, c)})"
    using only by (auto split: option.splits)
  have "card (set (map ?key ?cs)) \<le> 1"
  proof (cases "map_of CHAMPIONS_DATA s")
    case None
    with sub show ?thesis by simp
  next
    case (Some c)
    with sub have "set (map ?key ?cs) \<subseteq> {(s, c)}" by simp
    then have "card (set (map ?key ?cs)) \<le> card {(s, c)}"
      by (intro card_mono) auto
    then show ?thesis by simp
  qed
  with d have "length ?cs \<le> 1"
    using distinct_card[OF d] by simp
  with only none show ?thesis by blast
qed

lemmas ex_defs = ex_round_def ex_table_def ex_table_unlisted_def ex_nuggets_def ex_celtics_def ex_raw_def
  set_season_def row_defs

theorem normalize_pct_idempotent_witness:
  "map FG3_PCT ex_table = [375 / 1000, 5 / 10]
   \<and> map FG3_PCT (normalize_pct ex_round ex_table) = [375 / 10, 50]
   \<and> normalize_pct ex_round (normalize_pct ex_round ex_table) = normalize_pct ex_round ex_table"
proof -
  have n: "map FG3_PCT (normalize_pct ex_round ex_table) = [375 / 10, 50]"
    by (simp add: normalize_pct_def ex_defs)
  have "\<exists>x \<in> set (map FG3_PCT (normalize_pct ex_round ex_table)). 1 < x"
    unfolding n by simp
  then have h: "\<exists>r \<in> set (normalize_pct ex_round ex_table). 1 < FG3_PCT r" by auto
  show ?thesis
    using normalize_pct_idempotent[OF h] n by (simp add: ex_defs)
qed

theorem percent_points_exact_witness:
  "PTS (derive_metrics ex_round ex_table ! 0) = 96
   \<and> FG3M (derive_metrics ex_round ex_table ! 0) = 12
   \<and> POINTS_FROM_3 (derive_metrics ex_round ex_table ! 0) = 36
   \<and> PERCENT_POINTS_3 (derive_metrics ex_round ex_table ! 0) = Fin (375 / 10)"
proof -
  have len: "length (derive_metrics ex_round ex_table) = 2"
    by (simp add: derive_metrics_map normalize_pct_def ex_defs)
  then have m: "derive_metrics ex_round ex_table ! 0 \<in> set (derive_metrics ex_round ex_table)"
    by (intro nth_mem) simp
  have p: "PTS (derive_metrics ex_round ex_table ! 0) = 96"
    and f: "FG3M (derive_metrics ex_round ex_table ! 0) = 12"
    by (simp_all add: derive_metrics_map finish_row_simps normalize_pct_def ex_defs)
  from p have pos: "0 < PTS (derive_metrics ex_round ex_table ! 0)" by simp
  show ?thesis
    using percent_points_exact[OF m pos] p f by (simp add: ex_round_def)
qed

theorem champion_flag_witness:
  "distinct (map (\<lambda>r. (SEASON r, TEAM_NAME r)) ex_table_unlisted)
   \<and> map SEASON (derive_metrics ex_round ex_table_unlisted) = [''2022-23'', ''2022-23'', ''2024-25'']
   \<and> map IS_CHAMPION (derive_metrics ex_round ex_table_unlisted) = [True, False, False]
   \<and> map_of CHAMPIONS_DATA ''2024-25'' = None
   \<and> length (filter (\<lambda>r. SEASON r = ''2022-23'' \<and> IS_CHAMPION r)
         (derive_metrics ex_round ex_table_unlisted)) \<le> 1"
proof -
  have d: "distinct (map (\<lambda>r. (SEASON r, TEAM_NAME r)) ex_table_unlisted)"
    by (simp add: ex_defs)
  have s: "map SEASON (derive_metrics ex_round ex_table_unlisted) = [''2022-23'', ''2022-23'', ''2024-25'']"
    by (simp add: derive_metrics_map finish_row_simps normalize_pct_def ex_defs)
  have c: "map IS_CHAMPION (derive_metrics ex_round ex_table_unlisted) = [True, False, False]"
    by (simp add: derive_metrics_map finish_row_simps normalize_pct_def ex_defs CHAMPIONS_DATA_def)
  have n: "map_of CHAMPIONS_DATA ''2024-25'' = None"
    by (simp add: CHAMPIONS_DATA_def)
  show ?thesis
    using champion_flag[OF d, of "''2022-23''"] d s c n by simp
qed

subsection \<open>Metric cards\<close>

lemma finish_row_more:
  "THREES_PER_GAME (finish_row rnd r) = FG3M r"
  "THREES_ATT_PER_GAME (finish_row rnd r) = FG3A r"
  "W (finish_row rnd r) = W r"
  "L (finish_row rnd r) = L r"
  "GP (finish_row rnd r) = GP r"
  "FG3A (finish_row rnd r) = FG3A r"
  by (simp_all add: finish_row_def flag_champion_def with_champion_def derive_row_def
      Let_def row_defs)

text \<open>
  C10: when the filtered dataset has at least one row with is-champion true (so also when
  it has two or more), the champion 3PT% card and the champion percent-of-points card show
  the FG3_PCT and PERCENT_POINTS_3 of the first such row in row order; the later champion
  rows \<open>cs\<close> appear nowhere in the two values. The delta of the 3PT% card is that row's
  FG3_PCT minus the mean FG3_PCT of all filtered rows.
\<close>

theorem render_metrics_first_champion:
  assumes "filter IS_CHAMPION df_filtered = c # cs"
  shows "render_metrics df_filtered =
     Inr [\<lparr>label = ''Tentativas 3PT/Jogo'',
           shown = Fmt1 (mean (map THREES_ATT_PER_GAME df_filtered)) [],
           delta = Some (Lit ''Liga'')\<rparr>,
          \<lparr>label = label_avg_pct,
           shown = Fmt1 (mean (map FG3_PCT df_filtered)) ''%'',
           delta = Some (Lit ''Liga'')\<rparr>,
          \<lparr>label = label_champ_pct,
           shown = Fmt1 (Fin (FG3_PCT c)) ''%'',
           delta = Some (FmtSigned1 (fl_rsub (FG3_PCT c) (mean (map FG3_PCT df_filtered))) ''%'')\<rparr>,
          \<lparr>label = ''% pontos do 3PT'',
           shown = Fmt1 (PERCENT_POINTS_3 c) ''%'',
           delta = Some (Lit word_campeao)\<rparr>]"
  using assms
  by (simp add: render_metrics_def champ_pct_card_def champ_points_card_def Let_def)

lemma ex_repeated_rows:
  "ex_repeated =
     map (finish_row ex_round)
       [(set_season ''2022-23'' ex_celtics)\<lparr>FG3_PCT := 50\<rparr>,
        (set_season ''2022-23'' ex_nuggets)\<lparr>FG3_PCT := 375 / 10\<rparr>,
        (set_season ''2022-23'' ex_nuggets_again)\<lparr>FG3_PCT := 625 / 10\<rparr>]"
  by (simp add: ex_repeated_def derive_metrics_map normalize_pct_def ex_defs ex_nuggets_again_def)

theorem render_metrics_first_champion_witness:
  "map TEAM_NAME ex_repeated = [''Boston Celtics'', ''Denver Nuggets'', ''Denver Nuggets'']
   \<and> map IS_CHAMPION ex_repeated = [False, True, True]
   \<and> map FG3_PCT ex_repeated = [50, 375 / 10, 625 / 10]
   \<and> map PERCENT_POINTS_3 ex_repeated = [Fin 50, Fin (375 / 10), Fin 50]
   \<and> render_metrics ex_repeated =
       Inr [\<lparr>label = ''Tentativas 3PT/Jogo'', shown = Fmt1 (Fin 36) [],
             delta = Some (Lit ''Liga'')\<rparr>,
            \<lparr>label = label_avg_pct, shown = Fmt1 (Fin 50) ''%'',
             delta = Some (Lit ''Liga'')\<rparr>,
            \<lparr>label = label_champ_pct, shown = Fmt1 (Fin (375 / 10)) ''%'',
             delta = Some (FmtSigned1 (Fin (- 125 / 10)) ''%'')\<rparr>,
            \<lparr>label = ''% pontos do 3PT'', shown = Fmt1 (Fin (375 / 10)) ''%'',
             delta = Some (Lit word_campeao)\<rparr>]"
proof -
  let ?c = "finish_row ex_round ((set_season ''2022-23'' ex_nuggets)\<lparr>FG3_PCT := 375 / 10\<rparr>)"
  let ?c' = "finish_row ex_round ((set_season ''2022-23'' ex_nuggets_again)\<lparr>FG3_PCT := 625 / 10\<rparr>)"
  have f: "filter IS_CHAMPION ex_repeated = ?c # [?c']"
    by (simp add: ex_repeated_rows finish_row_simps ex_defs ex_nuggets_again_def CHAMPIONS_DATA_def)
  show ?thesis
    using render_metrics_first_champion[OF f]
    by (simp add: ex_repeated_rows finish_row_simps finish_row_more ex_defs
        ex_nuggets_again_def CHAMPIONS_DATA_def mean_def fl_div_def)
qed

subsection \<open>Minimum 3PT% filter\<close>

text \<open>
  C6: the filter keeps exactly the rows whose 3PT% is at least the threshold, an inclusive
  lower bound. The 3PT% of a dataset row is a percentage, from 0 to 100 after
  normalization: on rows without a negative 3PT%, threshold 0 returns the rows unchanged,
  and on rows without a 3PT% above 100, threshold 100 returns exactly the rows whose 3PT%
  equals 100.
\<close>

theorem filter_min_pct_in_range:
  "filter_min_pct t df = filter (\<lambda>r. real_of_int t \<le> FG3_PCT r) df
   \<and> ((\<forall>r \<in> set df. 0 \<le> FG3_PCT r) \<longrightarrow> filter_min_pct 0 df = df)
   \<and> ((\<forall>r \<in> set df. FG3_PCT r \<le> 100) \<longrightarrow>
         filter_min_pct 100 df = filter (\<lambda>r. FG3_PCT r = 100) df)"
proof (intro conjI impI)
  show "filter_min_pct t df = filter (\<lambda>r. real_of_int t \<le> FG3_PCT r) df"
    by (simp add: filter_min_pct_def)
next
  assume "\<forall>r \<in> set df. 0 \<le> FG3_PCT r"
  then show "filter_min_pct 0 df = df"
    by (simp add: filter_min_pct_def)
next
  assume "\<forall>r \<in> set df. FG3_PCT r \<le> 100"
  then have "\<forall>r \<in> set df. (100 \<le> FG3_PCT r) = (FG3_PCT r = 100)" by auto
  then show "filter_min_pct 100 df = filter (\<lambda>r. FG3_PCT r = 100) df"
    by (auto simp: filter_min_pct_def intro: filter_cong)
qed

lemma ex_dataset_rows:
  "ex_dataset =
     map (finish_row ex_round)
       [(set_season ''2022-23'' ex_nuggets)\<lparr>FG3_PCT := 375 / 10\<rparr>,
        (set_season ''2022-23'' ex_celtics)\<lparr>FG3_PCT := 50\<rparr>]"
  by (simp add: ex_dataset_def derive_metrics_map normalize_pct_def ex_defs)

lemma ex_dataset_longer_rows:
  "ex_dataset_longer = ex_dataset @
     [finish_row ex_round ((set_season ''2023-24'' ex_celtics)\<lparr>FG3_PCT := 50\<rparr>)]"
  by (simp add: ex_dataset_longer_def ex_dataset_def derive_metrics_map normalize_pct_def ex_defs)

theorem filter_min_pct_in_range_witness:
  "map FG3_PCT ex_dataset = [375 / 10, 50]
   \<and> filter_min_pct 0 ex_dataset = ex_dataset
   \<and> filter_min_pct 100 ex_dataset = []
   \<and> filter_min_pct 50 ex_dataset = [ex_dataset ! 1]"
proof -
  have p: "map FG3_PCT ex_dataset = [375 / 10, 50]"
    by (simp add: ex_dataset_rows finish_row_simps ex_defs)
  have lo: "\<forall>r \<in> set ex_dataset. 0 \<le> FG3_PCT r"
    by (simp add: ex_dataset_rows finish_row_simps ex_defs)
  have hi: "\<forall>r \<in> set ex_dataset. FG3_PCT r \<le> 100"
    by (simp add: ex_dataset_rows finish_row_simps ex_defs)
  have none: "filter (\<lambda>r. FG3_PCT r = 100) ex_dataset = []"
    by (simp add: ex_dataset_rows finish_row_simps ex_defs)
  have mid: "filter (\<lambda>r. real_of_int 50 \<le> FG3_PCT r) ex_dataset = [ex_dataset ! 1]"
    by (simp add: ex_dataset_rows finish_row_simps ex_defs)
  show ?thesis
    using filter_min_pct_in_range[of 0 ex_dataset] filter_min_pct_in_range[of 50 ex_dataset]
      p lo hi none mid
    by simp
qed

subsection \<open>Empty filtered dataset\<close>

lemma render_metrics_Nil: "render_metrics [] = Inr ex_empty_cards"
  by (simp add: render_metrics_def champ_pct_card_def champ_points_card_def mean_def
      ex_empty_cards_def)

text \<open>
  C7: with the slider at 100 no row of the example dataset passes the filter. No exception
  is raised: the means are NaN, the champion lookup finds no row and \<^verbatim>\<open>.iloc[0]\<close> is
  not reached; the two champion cards show "N/A" and the top-10 and scatter charts receive
  no rows. The two league-average cards are formatted without the guard that the champion
  cards of the same function have: they show the NaN mean, which is neither empty nor
  "N/A", so the cards are not all in the state the claim requires.
\<close>

theorem empty_filter_renders_nan:
  "filter_dataset ex_dataset ''2022-23'' [''Denver Nuggets'', ''Boston Celtics''] 100 = []
   \<and> view_metrics (main_views ex_dataset ''2022-23'' [''Denver Nuggets'', ''Boston Celtics''] 100)
       = Inr ex_empty_cards
   \<and> view_top_bar (main_views ex_dataset ''2022-23'' [''Denver Nuggets'', ''Boston Celtics''] 100) = []
   \<and> view_scatter (main_views ex_dataset ''2022-23'' [''Denver Nuggets'', ''Boston Celtics''] 100) = []
   \<and> map shown ex_empty_cards = [Fmt1 NaN [], Fmt1 NaN ''%'', Lit ''N/A'', Lit ''N/A'']
   \<and> \<not> list_all na_state ex_empty_cards"
proof -
  have e: "filter_dataset ex_dataset ''2022-23'' [''Denver Nuggets'', ''Boston Celtics''] 100 = []"
    by (simp add: filter_dataset_def filter_min_pct_def filter_teams_def filter_season_def
        ex_dataset_rows finish_row_simps ex_defs)
  have c: "map shown ex_empty_cards = [Fmt1 NaN [], Fmt1 NaN ''%'', Lit ''N/A'', Lit ''N/A'']"
    by (simp add: ex_empty_cards_def)
  have n: "\<not> list_all na_state ex_empty_cards"
    by (simp add: ex_empty_cards_def na_state_def)
  show ?thesis
    using e c n
    by (simp add: main_views_def render_metrics_Nil plot_top_bar_def plot_scatter_def
        nlargest_def sort_values_def)
qed

subsection \<open>Views\<close>

lemma ex_filtered_same:
  "filter_dataset ex_dataset ''2022-23'' [''Denver Nuggets'', ''Boston Celtics''] 0
     = filter_dataset ex_dataset_longer ''2022-23'' [''Denver Nuggets'', ''Boston Celtics''] 0"
  by (simp add: filter_dataset_def filter_min_pct_def filter_teams_def filter_season_def
      ex_dataset_longer_rows ex_dataset_rows finish_row_simps ex_defs)

text \<open>
  C5, as stated, fails for the line chart: two datasets with the same filtered subset but
  different rows in another season give different views, because plot_evolution is called
  on the whole dataset.
\<close>

theorem views_counterexample:
  "filter_dataset ex_dataset ''2022-23'' [''Denver Nuggets'', ''Boston Celtics''] 0
     = filter_dataset ex_dataset_longer ''2022-23'' [''Denver Nuggets'', ''Boston Celtics''] 0
   \<and> main_views ex_dataset ''2022-23'' [''Denver Nuggets'', ''Boston Celtics''] 0
     \<noteq> main_views ex_dataset_longer ''2022-23'' [''Denver Nuggets'', ''Boston Celtics''] 0"
proof -
  note f = ex_filtered_same
  have l1: "length (plot_evolution ex_dataset) = 2"
    by (simp add: plot_evolution_def groupby_season_mean_def
        ex_dataset_rows finish_row_simps ex_defs CHAMPIONS_DATA_def)
  have l2: "length (plot_evolution ex_dataset_longer) = 4"
    by (simp add: plot_evolution_def groupby_season_mean_def ex_dataset_longer_rows
        ex_dataset_rows finish_row_simps ex_defs CHAMPIONS_DATA_def)
  have "view_evolution (main_views ex_dataset ''2022-23'' [''Denver Nuggets'', ''Boston Celtics''] 0)
     \<noteq> view_evolution (main_views ex_dataset_longer ''2022-23'' [''Denver Nuggets'', ''Boston Celtics''] 0)"
    using l1 l2 by (auto simp: main_views_def Let_def)
  then have "main_views ex_dataset ''2022-23'' [''Denver Nuggets'', ''Boston Celtics''] 0
     \<noteq> main_views ex_dataset_longer ''2022-23'' [''Denver Nuggets'', ''Boston Celtics''] 0"
    by auto
  with f show ?thesis by blast
qed

text \<open>
  C5, amended: the metric cards, the top-10 bar chart and the scatter chart are functions
  of the filtered dataset: two datasets with equal filtered subsets give the same three
  views. The line chart is plot_evolution of the whole, unfiltered dataset.
\<close>

theorem views_of_filtered:
  assumes "filter_dataset df1 selected_season selected_teams min_fg3_pct
         = filter_dataset df2 selected_season selected_teams min_fg3_pct"
  shows "view_metrics (main_views df1 selected_season selected_teams min_fg3_pct)
           = view_metrics (main_views df2 selected_season selected_teams min_fg3_pct)
       \<and> view_top_bar (main_views df1 selected_season selected_teams min_fg3_pct)
           = view_top_bar (main_views df2 selected_season selected_teams min_fg3_pct)
       \<and> view_scatter (main_views df1 selected_season selected_teams min_fg3_pct)
           = view_scatter (main_views df2 selected_season selected_teams min_fg3_pct)
       \<and> view_evolution (main_views df1 selected_season selected_teams min_fg3_pct)
           = plot_evolution df1
       \<and> view_evolution (main_views df2 selected_season selected_teams min_fg3_pct)
           = plot_evolution df2"
  using assms by (simp add: main_views_def Let_def)

theorem views_of_filtered_witness:
  "ex_dataset \<noteq> ex_dataset_longer
   \<and> filter_dataset ex_dataset ''2022-23'' [''Denver Nuggets'', ''Boston Celtics''] 0
     = filter_dataset ex_dataset_longer ''2022-23'' [''Denver Nuggets'', ''Boston Celtics''] 0
   \<and> view_metrics (main_views ex_dataset ''2022-23'' [''Denver Nuggets'', ''Boston Celtics''] 0)
     = view_metrics (main_views ex_dataset_longer ''2022-23'' [''Denver Nuggets'', ''Boston Celtics''] 0)
   \<and> view_top_bar (main_views ex_dataset ''2022-23'' [''Denver Nuggets'', ''Boston Celtics''] 0)
     = view_top_bar (main_views ex_dataset_longer ''2022-23'' [''Denver Nuggets'', ''Boston Celtics''] 0)
   \<and> view_scatter (main_views ex_dataset ''2022-23'' [''Denver Nuggets'', ''Boston Celtics''] 0)
     = view_scatter (main_views ex_dataset_longer ''2022-23'' [''Denver Nuggets'', ''Boston Celtics''] 0)"
proof -
  have "length ex_dataset \<noteq> length ex_dataset_longer"
    by (simp add: ex_dataset_longer_rows)
  then have ne: "ex_dataset \<noteq> ex_dataset_longer" by auto
  show ?thesis
    using views_of_filtered[OF ex_filtered_same] ex_filtered_same ne by simp
qed

subsection \<open>CSV export\<close>

text \<open>
  C8: for every dataset and every choice of season, teams and threshold, the download is
  offered under the name nba_stats_<selected season>.csv; its first record is the eight
  renamed columns in the order Time, Vitorias, Derrotas, 3PT/Jogo, Tentativas 3PT/Jogo,
  3PT %, % Pontos do 3PT, Campeao (written here without their accents; the strings hold
  the accented letters as UTF-8 bytes), and it is followed by one record of eight cells
  per row of the filtered dataset, in row order, the first cell being the team name.
\<close>

theorem csv_download_shape:
  "csv_download df selected_season selected_teams min_fg3_pct =
     Inr (''nba_stats_'' @ selected_season @ ''.csv'',
          map CStr [''Time'', word_vitorias, ''Derrotas'', ''3PT/Jogo'', ''Tentativas 3PT/Jogo'',
                    ''3PT %'', ''% Pontos do 3PT'', word_campeao]
          # map (\<lambda>r. [CStr (TEAM_NAME r), CInt (W r), CInt (L r), CNum (THREES_PER_GAME r),
                        CNum (THREES_ATT_PER_GAME r), CNum (FG3_PCT r),
                        CFlt (PERCENT_POINTS_3 r), CBool (IS_CHAMPION r)])
                (filter_dataset df selected_season selected_teams min_fg3_pct))"
  by (simp add: csv_download_def select_columns_def rename_columns_def to_csv_def
      display_cols_def display_names_def dataset_columns_def row_cells_def Let_def)

theorem csv_download_shape_witness:
  "csv_download ex_dataset ''2022-23'' [''Denver Nuggets'', ''Boston Celtics''] 38 =
     Inr (''nba_stats_2022-23.csv'',
          [map CStr [''Time'', word_vitorias, ''Derrotas'', ''3PT/Jogo'', ''Tentativas 3PT/Jogo'',
                     ''3PT %'', ''% Pontos do 3PT'', word_campeao],
           [CStr ''Boston Celtics'', CInt 50, CInt 32, CNum 16, CNum 40, CNum 50,
            CFlt (Fin 50), CBool False]])"
proof -
  have f: "filter_dataset ex_dataset ''2022-23'' [''Denver Nuggets'', ''Boston Celtics''] 38
      = [finish_row ex_round ((set_season ''2022-23'' ex_celtics)\<lparr>FG3_PCT := 50\<rparr>)]"
    by (simp add: filter_dataset_def filter_min_pct_def filter_teams_def filter_season_def
        ex_dataset_rows finish_row_simps ex_defs)
  show ?thesis
    using csv_download_shape[of ex_dataset "''2022-23''" "[''Denver Nuggets'', ''Boston Celtics'']" 38]
    by (simp add: f finish_row_simps finish_row_more ex_defs fl_div_def CHAMPIONS_DATA_def)
qed

end
